theory Spec2Isabelle
  imports Complex_Main "HOL-Library.Log_Nat"
begin

section \<open>The savings projection of the Savings Planner page\<close>

text \<open>
  The page \<^verbatim>\<open>pages/2_Savings_Planner.py\<close> has one function with logic of its
  own, \<^verbatim>\<open>calculate_savings_projection\<close>. It is embedded here as it is written.

  Amounts (\<^verbatim>\<open>target_amount\<close>, \<^verbatim>\<open>monthly_saving\<close> and everything derived from
  them) are values of type \<^typ>\<open>real\<close>: Python's numbers in exact arithmetic, which
  is the arithmetic of \<^verbatim>\<open>int\<close> amounts in sums, differences and products. A second
  embedding, further down, has amounts of type \<^verbatim>\<open>float\<close> with the rounding of
  every operation; the range of a float is outside both.
  Month counts and month indices are Python's unbounded integers, type \<^typ>\<open>int\<close>.
\<close>

subsection \<open>Data\<close>

text \<open>
  \<^verbatim>\<open>datetime.date\<close>: the function reads the attributes \<^verbatim>\<open>year\<close> and
  \<^verbatim>\<open>month\<close> only; \<^verbatim>\<open>day\<close> is carried along because a date has one.
\<close>

record date =
  year :: int
  month :: int
  day :: int

text \<open>The only exception the arithmetic of the function can raise.\<close>

datatype py_error = ZeroDivisionError

text \<open>
  One dictionary of the list \<^verbatim>\<open>projection\<close>, with the keys \<^verbatim>\<open>'month'\<close>,
  \<^verbatim>\<open>'amount'\<close> and \<^verbatim>\<open>'target_line'\<close>. The key \<^verbatim>\<open>'month'\<close> is the field
  \<open>entry_month\<close>, since \<open>month\<close> is the attribute of a date.
\<close>

record projection_entry =
  entry_month :: int
  amount :: real
  target_line :: real

text \<open>The dictionary the function returns, one field for each key.\<close>

record projection_result =
  months_to_target :: int
  total_saved :: real
  shortfall :: real
  required_monthly :: real
  projection :: "projection_entry list"
  success_rate :: real

subsection \<open>Python's primitives\<close>

text \<open>True division \<^verbatim>\<open>a / b\<close>: raises \<^verbatim>\<open>ZeroDivisionError\<close> when \<^verbatim>\<open>b\<close> is 0.\<close>

definition py_div :: "real \<Rightarrow> real \<Rightarrow> py_error + real" where
  "py_div a b = (if b = 0 then Inl ZeroDivisionError else Inr (a / b))"

text \<open>\<^verbatim>\<open>range(n)\<close>: the integers from 0 up to \<^verbatim>\<open>n - 1\<close>, none when \<^verbatim>\<open>n <= 0\<close>.\<close>

definition py_range :: "int \<Rightarrow> int list" where
  "py_range n = [0..n - 1]"

text \<open>
  The order of \<^verbatim>\<open>datetime.date\<close> values (\<^verbatim>\<open><=\<close>): by year, then month, then
  day. The constructor of \<^verbatim>\<open>datetime.date\<close> accepts only a year from 1 to 9999, a
  month from 1 to 12 and a day of that month.
\<close>

definition date_le :: "date \<Rightarrow> date \<Rightarrow> bool" where
  "date_le a b =
     (year a < year b
      \<or> (year a = year b \<and> (month a < month b \<or> (month a = month b \<and> day a \<le> day b))))"

definition is_leap :: "int \<Rightarrow> bool" where
  "is_leap y = (y mod 4 = 0 \<and> (y mod 100 \<noteq> 0 \<or> y mod 400 = 0))"

definition days_in_month :: "int \<Rightarrow> int \<Rightarrow> int" where
  "days_in_month y m =
     (if m = 2 then (if is_leap y then 29 else 28)
      else if m = 4 \<or> m = 6 \<or> m = 9 \<or> m = 11 then 30 else 31)"

definition valid_date :: "date \<Rightarrow> bool" where
  "valid_date d =
     (1 \<le> year d \<and> year d \<le> 9999 \<and> 1 \<le> month d \<and> month d \<le> 12
      \<and> 1 \<le> day d \<and> day d \<le> days_in_month (year d) (month d))"

subsection \<open>The function\<close>

text \<open>
  The conditional expression \<^verbatim>\<open>(target_amount / months_to_target) * month if
  months_to_target > 0 else 0\<close> of one loop iteration: the division is evaluated only
  when the test holds.
\<close>

definition target_line_value :: "real \<Rightarrow> int \<Rightarrow> int \<Rightarrow> py_error + real" where
  "target_line_value target_amount months mo =
     (if months > 0
      then (case py_div target_amount (of_int months) of
              Inl e \<Rightarrow> Inl e
            | Inr q \<Rightarrow> Inr (q * of_int mo))
      else Inr 0)"

text \<open>
  The loop \<^verbatim>\<open>for month in range(months_to_target + 1)\<close>, over the remaining indices,
  with the list \<^verbatim>\<open>projection\<close> built so far and \<^verbatim>\<open>current_amount\<close> as the state.
  An exception in an iteration ends the loop with it.
\<close>

fun projection_loop ::
  "real \<Rightarrow> real \<Rightarrow> int \<Rightarrow> int list \<Rightarrow> projection_entry list \<Rightarrow> real
     \<Rightarrow> py_error + (projection_entry list \<times> real)" where
  "projection_loop target_amount monthly_saving months [] proj current_amount =
     Inr (proj, current_amount)"
| "projection_loop target_amount monthly_saving months (mo # rest) proj current_amount =
     (case target_line_value target_amount months mo of
        Inl e \<Rightarrow> Inl e
      | Inr line \<Rightarrow>
          projection_loop target_amount monthly_saving months rest
            (proj @ [\<lparr>entry_month = mo, amount = current_amount, target_line = line\<rparr>])
            (current_amount + monthly_saving))"

text \<open>The clamp of lines 38 to 41.\<close>

definition months_between :: "date \<Rightarrow> date \<Rightarrow> int" where
  "months_between start_date target_date =
     (let m = (year target_date - year start_date) * 12
                + (month target_date - month start_date)
      in if m \<le> 0 then 1 else m)"

text \<open>\<^verbatim>\<open>target_amount / months_to_target if months_to_target > 0 else 0\<close>.\<close>

definition required_monthly_value :: "real \<Rightarrow> int \<Rightarrow> py_error + real" where
  "required_monthly_value target_amount months =
     (if months > 0 then py_div target_amount (of_int months) else Inr 0)"

text \<open>
  \<^verbatim>\<open>min(100, (total_saved / target_amount) * 100) if target_amount > 0 else 0\<close>.
\<close>

definition success_rate_value :: "real \<Rightarrow> real \<Rightarrow> py_error + real" where
  "success_rate_value saved target_amount =
     (if target_amount > 0
      then (case py_div saved target_amount of
              Inl e \<Rightarrow> Inl e
            | Inr q \<Rightarrow> Inr (min 100 (q * 100)))
      else Inr 0)"

text \<open>
  The whole function, in the order of its statements: the month count and its clamp,
  \<^verbatim>\<open>total_saved\<close>, \<^verbatim>\<open>shortfall\<close>, \<^verbatim>\<open>required_monthly\<close>, the loop, and the
  dictionary returned, whose \<^verbatim>\<open>'success_rate'\<close> is computed last.
\<close>

definition calculate_savings_projection ::
  "real \<Rightarrow> real \<Rightarrow> date \<Rightarrow> date \<Rightarrow> py_error + projection_result" where
  "calculate_savings_projection target_amount monthly_saving start_date target_date =
     (let months = months_between start_date target_date;
          saved = monthly_saving * of_int months;
          short = max 0 (target_amount - saved)
      in case required_monthly_value target_amount months of
           Inl e \<Rightarrow> Inl e
         | Inr req \<Rightarrow>
            (case projection_loop target_amount monthly_saving months
                    (py_range (months + 1)) [] 0 of
               Inl e \<Rightarrow> Inl e
             | Inr (proj, current_amount) \<Rightarrow>
                (case success_rate_value saved target_amount of
                   Inl e \<Rightarrow> Inl e
                 | Inr rate \<Rightarrow>
                     Inr \<lparr>months_to_target = months, total_saved = saved,
                          shortfall = short, required_monthly = req,
                          projection = proj, success_rate = rate\<rparr>)))"

subsection \<open>The function on binary floating-point amounts\<close>

text \<open>
  Python's \<^verbatim>\<open>float\<close> is the binary64 format of IEEE 754: a significand of 53 bits,
  and every operation returns the exact result rounded to the nearest such number, to
  the one with an even significand when two are equally near. A float is modelled by
  the rational number it denotes. The model covers the normal range of the format:
  overflow to infinity and subnormal numbers are left out.
\<close>

definition pow2 :: "int \<Rightarrow> rat" where
  "pow2 k = (if 0 \<le> k then 2 ^ nat k else 1 / 2 ^ nat (- k))"

text \<open>The nearest integer, the even one of the two when \<open>x\<close> lies half way.\<close>

definition round_half_even :: "rat \<Rightarrow> int" where
  "round_half_even x =
     (let f = \<lfloor>x\<rfloor>; r = x - of_int f
      in if r < 1 / 2 then f else if 1 / 2 < r then f + 1 else if even f then f else f + 1)"

text \<open>
  The exponent \<open>e\<close> with \<open>2 ^ e \<le> \<bar>q\<bar> < 2 ^ (e + 1)\<close>, for \<open>q\<close> other than 0, from the
  bit lengths of the numerator and the denominator.
\<close>

definition binary_exponent :: "rat \<Rightarrow> int" where
  "binary_exponent q =
     (let (n, d) = quotient_of \<bar>q\<bar>; e0 = bitlen n - bitlen d
      in if \<bar>q\<bar> < pow2 e0 then e0 - 1 else e0)"

text \<open>Rounding to binary64: 53 significant bits, nearest, ties to even.\<close>

definition round_double :: "rat \<Rightarrow> rat" where
  "round_double q =
     (if q = 0 then 0
      else let k = binary_exponent q - 52
           in of_int (round_half_even (q / pow2 k)) * pow2 k)"

text \<open>
  The operations of \<^verbatim>\<open>float\<close>. An \<^verbatim>\<open>int\<close> operand is converted to \<^verbatim>\<open>float\<close>
  first (\<open>py_float\<close>), as Python does in mixed arithmetic.
\<close>

definition py_float :: "int \<Rightarrow> rat" where
  "py_float n = round_double (of_int n)"

definition float_add :: "rat \<Rightarrow> rat \<Rightarrow> rat" where
  "float_add a b = round_double (a + b)"

definition float_sub :: "rat \<Rightarrow> rat \<Rightarrow> rat" where
  "float_sub a b = round_double (a - b)"

definition float_mul :: "rat \<Rightarrow> rat \<Rightarrow> rat" where
  "float_mul a b = round_double (a * b)"

definition float_div :: "rat \<Rightarrow> rat \<Rightarrow> py_error + rat" where
  "float_div a b = (if b = 0 then Inl ZeroDivisionError else Inr (round_double (a / b)))"

text \<open>The two dictionaries, with amounts of type \<^verbatim>\<open>float\<close>.\<close>

record float_entry =
  float_entry_month :: int
  float_amount :: rat
  float_target_line :: rat

record float_result =
  float_months_to_target :: int
  float_total_saved :: rat
  float_shortfall :: rat
  float_required_monthly :: rat
  float_projection :: "float_entry list"
  float_success_rate :: rat

text \<open>
  The function once more, statement by statement as above, for \<^verbatim>\<open>target_amount\<close> and
  \<^verbatim>\<open>monthly_saving\<close> of type \<^verbatim>\<open>float\<close>: every arithmetic operation on amounts is
  the rounding one. \<^verbatim>\<open>current_amount\<close> starts as the \<^verbatim>\<open>int\<close> 0.
\<close>

definition float_target_line_value :: "rat \<Rightarrow> int \<Rightarrow> int \<Rightarrow> py_error + rat" where
  "float_target_line_value target_amount months mo =
     (if months > 0
      then (case float_div target_amount (py_float months) of
              Inl e \<Rightarrow> Inl e
            | Inr q \<Rightarrow> Inr (float_mul q (py_float mo)))
      else Inr 0)"

fun float_projection_loop ::
  "rat \<Rightarrow> rat \<Rightarrow> int \<Rightarrow> int list \<Rightarrow> float_entry list \<Rightarrow> rat
     \<Rightarrow> py_error + (float_entry list \<times> rat)" where
  "float_projection_loop target_amount monthly_saving months [] proj current_amount =
     Inr (proj, current_amount)"
| "float_projection_loop target_amount monthly_saving months (mo # rest) proj current_amount =
     (case float_target_line_value target_amount months mo of
        Inl e \<Rightarrow> Inl e
      | Inr line \<Rightarrow>
          float_projection_loop target_amount monthly_saving months rest
            (proj @ [\<lparr>float_entry_month = mo, float_amount = current_amount,
                      float_target_line = line\<rparr>])
            (float_add current_amount monthly_saving))"

definition float_required_monthly_value :: "rat \<Rightarrow> int \<Rightarrow> py_error + rat" where
  "float_required_monthly_value target_amount months =
     (if months > 0 then float_div target_amount (py_float months) else Inr 0)"

definition float_success_rate_value :: "rat \<Rightarrow> rat \<Rightarrow> py_error + rat" where
  "float_success_rate_value saved target_amount =
     (if target_amount > 0
      then (case float_div saved target_amount of
              Inl e \<Rightarrow> Inl e
            | Inr q \<Rightarrow> Inr (min 100 (float_mul q (py_float 100))))
      else Inr 0)"

definition float_calculate_savings_projection ::
  "rat \<Rightarrow> rat \<Rightarrow> date \<Rightarrow> date \<Rightarrow> py_error + float_result" where
  "float_calculate_savings_projection target_amount monthly_saving start_date target_date =
     (let months = months_between start_date target_date;
          saved = float_mul monthly_saving (py_float months);
          short = max 0 (float_sub target_amount saved)
      in case float_required_monthly_value target_amount months of
           Inl e \<Rightarrow> Inl e
         | Inr req \<Rightarrow>
            (case float_projection_loop target_amount monthly_saving months
                    (py_range (months + 1)) [] 0 of
               Inl e \<Rightarrow> Inl e
             | Inr (proj, current_amount) \<Rightarrow>
                (case float_success_rate_value saved target_amount of
                   Inl e \<Rightarrow> Inl e
                 | Inr rate \<Rightarrow>
                     Inr \<lparr>float_months_to_target = months, float_total_saved = saved,
                          float_shortfall = short, float_required_monthly = req,
                          float_projection = proj, float_success_rate = rate\<rparr>)))"

section \<open>Properties of the projection\<close>

subsection \<open>The closed form of the result\<close>

lemmas eval_defs = calculate_savings_projection_def months_between_def py_range_def
  required_monthly_value_def success_rate_value_def target_line_value_def py_div_def Let_def

lemma months_between_pos: "0 < months_between sd td"
  by (simp add: months_between_def Let_def)

lemma months_between_day:
  "months_between (sd\<lparr>day := d1\<rparr>) (td\<lparr>day := d2\<rparr>) = months_between sd td"
  by (simp add: months_between_def)

lemma target_line_value_pos:
  "0 < months \<Longrightarrow> target_line_value ta months mo = Inr (ta / of_int months * of_int mo)"
  by (simp add: target_line_value_def py_div_def)

text \<open>
  The loop over any list of indices \<open>xs\<close>, from any state: with a positive month count
  no iteration raises, the \<open>k\<close>-th new entry holds the amount \<open>cur + ms * k\<close>, and
  \<^verbatim>\<open>current_amount\<close> ends \<open>length xs\<close> contributions higher.
\<close>

lemma projection_loop_pos:
  "0 < months \<Longrightarrow>
   projection_loop ta ms months xs proj cur =
     Inr (proj @ map (\<lambda>k. \<lparr>entry_month = xs ! k, amount = cur + ms * real k,
                           target_line = ta / of_int months * of_int (xs ! k)\<rparr>)
                   [0..<length xs],
          cur + ms * real (length xs))"
proof (induction xs arbitrary: proj cur)
  case Nil
  then show ?case by simp
next
  case (Cons x xs)
  then show ?case
    by (simp add: target_line_value_pos map_upt_Suc algebra_simps del: upt_Suc)
qed

lemma py_range_length: "0 < m \<Longrightarrow> length (py_range (m + 1)) = nat m + 1"
  by (simp add: py_range_def)

lemma py_range_nth: "k \<le> nat m \<Longrightarrow> 0 < m \<Longrightarrow> py_range (m + 1) ! k = int k"
  by (simp add: py_range_def)

lemma map_int_upt: "0 \<le> m \<Longrightarrow> map int [0..<nat m + 1] = [0..m]"
  by (rule nth_equalityI) (simp_all del: upt_Suc)

text \<open>The function never raises, and every field of its result has a closed form.\<close>

lemma calc_closed_form:
  "calculate_savings_projection ta ms sd td =
     Inr \<lparr>months_to_target = months_between sd td,
          total_saved = ms * of_int (months_between sd td),
          shortfall = max 0 (ta - ms * of_int (months_between sd td)),
          required_monthly = ta / of_int (months_between sd td),
          projection =
            map (\<lambda>k. \<lparr>entry_month = int k, amount = ms * real k,
                       target_line = ta / of_int (months_between sd td) * of_int (int k)\<rparr>)
              [0..<nat (months_between sd td) + 1],
          success_rate =
            (if 0 < ta then min 100 (ms * of_int (months_between sd td) / ta * 100) else 0)\<rparr>"
proof -
  define m where "m = months_between sd td"
  have m: "0 < m" by (simp add: m_def months_between_pos)
  have req: "required_monthly_value ta m = Inr (ta / of_int m)"
    using m by (simp add: required_monthly_value_def py_div_def)
  have loop: "projection_loop ta ms m (py_range (m + 1)) [] 0 =
     Inr (map (\<lambda>k. \<lparr>entry_month = int k, amount = ms * real k,
                      target_line = ta / of_int m * of_int (int k)\<rparr>) [0..<nat m + 1],
          ms * real (nat m + 1))"
    using m by (simp add: projection_loop_pos py_range_length py_range_nth del: upt_Suc)
  have rate: "success_rate_value (ms * of_int m) ta =
     Inr (if 0 < ta then min 100 (ms * of_int m / ta * 100) else 0)"
    by (simp add: success_rate_value_def py_div_def)
  show ?thesis
    unfolding calculate_savings_projection_def Let_def m_def [symmetric]
    by (simp add: req loop rate)
qed

lemma months_between_not_after:
  assumes "valid_date sd" and "valid_date td" and "date_le td sd"
  shows "months_between sd td = 1"
proof -
  have "(year td - year sd) * 12 + (month td - month sd) \<le> 0"
    using assms unfolding valid_date_def date_le_def by auto
  then show ?thesis by (simp add: months_between_def)
qed

subsection \<open>The month count\<close>

text \<open>
  Claim C1. For all arguments the function returns, and \<^verbatim>\<open>months_to_target\<close> is
  \<^verbatim>\<open>(target_date.year - start_date.year) * 12 + (target_date.month - start_date.month)\<close>
  when that number is positive and 1 when it is zero or negative. Replacing the day of
  either date by any other day leaves the whole result as it is.
\<close>

theorem months_to_target_month_difference:
  "\<exists>r. calculate_savings_projection ta ms sd td = Inr r
      \<and> months_to_target r =
          (if 0 < (year td - year sd) * 12 + (month td - month sd)
           then (year td - year sd) * 12 + (month td - month sd) else 1)
      \<and> calculate_savings_projection ta ms (sd\<lparr>day := d1\<rparr>) (td\<lparr>day := d2\<rparr>) = Inr r"
  by (simp add: calc_closed_form months_between_day) (simp add: months_between_def Let_def)

text \<open>
  From 2024-01-01 to 2024-11-01 there are 10 months, as from 2024-01-31 to 2024-11-30;
  from 2024-06-01 back to 2024-01-01 the difference is -5 and the count is 1.
\<close>

theorem months_to_target_month_difference_witness:
  "(\<exists>r. calculate_savings_projection 100000 10000
      \<lparr>year = 2024, month = 1, day = 1\<rparr>
      \<lparr>year = 2024, month = 11, day = 1\<rparr> = Inr r
      \<and> months_to_target r = 10
      \<and> calculate_savings_projection 100000 10000
          \<lparr>year = 2024, month = 1, day = 31\<rparr>
          \<lparr>year = 2024, month = 11, day = 30\<rparr> = Inr r)
   \<and> (\<exists>r. calculate_savings_projection 100000 10000
       \<lparr>year = 2024, month = 6, day = 1\<rparr>
       \<lparr>year = 2024, month = 1, day = 1\<rparr> = Inr r
      \<and> months_to_target r = 1
      \<and> calculate_savings_projection 100000 10000
          \<lparr>year = 2024, month = 6, day = 30\<rparr>
          \<lparr>year = 2024, month = 1, day = 15\<rparr> = Inr r)"
  using months_to_target_month_difference [of 100000 10000
      "\<lparr>year = 2024, month = 1, day = 1\<rparr>"
      "\<lparr>year = 2024, month = 11, day = 1\<rparr>" 31 30]
    months_to_target_month_difference [of 100000 10000
        "\<lparr>year = 2024, month = 6, day = 1\<rparr>"
      "\<lparr>year = 2024, month = 1, day = 1\<rparr>" 30 15]
  by simp

subsection \<open>The timeline\<close>

text \<open>
  Claim C2. The list \<^verbatim>\<open>projection\<close> has \<^verbatim>\<open>months_to_target + 1\<close> entries, whose
  \<^verbatim>\<open>'month'\<close> values are 0, 1, ..., \<^verbatim>\<open>months_to_target\<close> in this order. The amount
  of entry 0 is 0, and the amount of every entry \<open>i\<close> from 1 to \<^verbatim>\<open>months_to_target\<close>
  is the amount of entry \<open>i - 1\<close> plus \<^verbatim>\<open>monthly_saving\<close>.
\<close>

theorem projection_entries_accumulate:
  "\<exists>r. calculate_savings_projection ta ms sd td = Inr r
      \<and> length (projection r) = nat (months_to_target r) + 1
      \<and> map entry_month (projection r) = [0..months_to_target r]
      \<and> amount (projection r ! 0) = 0
      \<and> (\<forall>i. 1 \<le> i \<and> i \<le> nat (months_to_target r) \<longrightarrow>
            amount (projection r ! i) = amount (projection r ! (i - 1)) + ms)"
proof -
  let ?m = "months_between sd td"
  let ?p = "map (\<lambda>k. \<lparr>entry_month = int k, amount = ms * real k,
                       target_line = ta / of_int ?m * of_int (int k)\<rparr>) [0..<nat ?m + 1]"
  obtain r where r: "calculate_savings_projection ta ms sd td = Inr r"
    and mt: "months_to_target r = ?m" and p: "projection r = ?p"
    by (simp add: calc_closed_form)
  have m: "0 < ?m" by (rule months_between_pos)
  have len: "length (projection r) = nat (months_to_target r) + 1"
    by (simp add: mt p)
  have idx: "map entry_month (projection r) = [0..months_to_target r]"
    using m map_int_upt [of ?m] by (simp add: mt p comp_def del: upt_Suc)
  have first: "amount (projection r ! 0) = 0"
    by (simp add: p del: upt_Suc)
  have step: "amount (projection r ! i) = amount (projection r ! (i - 1)) + ms"
    if "1 \<le> i \<and> i \<le> nat (months_to_target r)" for i
  proof -
    from that obtain j where j: "i = Suc j" by (cases i) auto
    with that show ?thesis
      by (simp add: mt p algebra_simps del: upt_Suc)
  qed
  from r len idx first step show ?thesis by blast
qed

text \<open>Three months of 1000: four entries, with the amounts 0, 1000, 2000 and 3000.\<close>

theorem projection_entries_accumulate_witness:
  "\<exists>r. calculate_savings_projection 3000 1000
      \<lparr>year = 2024, month = 1, day = 1\<rparr>
      \<lparr>year = 2024, month = 4, day = 1\<rparr> = Inr r
      \<and> months_to_target r = 3
      \<and> length (projection r) = 4
      \<and> map entry_month (projection r) = [0, 1, 2, 3]
      \<and> amount (projection r ! 0) = 0
      \<and> amount (projection r ! 1) = amount (projection r ! 0) + 1000
      \<and> amount (projection r ! 2) = amount (projection r ! 1) + 1000
      \<and> amount (projection r ! 3) = amount (projection r ! 2) + 1000"
proof -
  obtain r where r: "calculate_savings_projection 3000 1000
      \<lparr>year = 2024, month = 1, day = 1\<rparr>
      \<lparr>year = 2024, month = 4, day = 1\<rparr> = Inr r"
    and len: "length (projection r) = nat (months_to_target r) + 1"
    and idx: "map entry_month (projection r) = [0..months_to_target r]"
    and first: "amount (projection r ! 0) = 0"
    and step: "\<And>i. 1 \<le> i \<and> i \<le> nat (months_to_target r) \<Longrightarrow>
            amount (projection r ! i) = amount (projection r ! (i - 1)) + 1000"
    using projection_entries_accumulate [of 3000 1000
        "\<lparr>year = 2024, month = 1, day = 1\<rparr>"
      "\<lparr>year = 2024, month = 4, day = 1\<rparr>"]
    by blast
  have m: "months_to_target r = 3"
    using r by (auto simp add: eval_defs upto_rec1)
  from r m len idx first step [of 1] step [of 2] step [of 3] show ?thesis
    by (simp add: upto_rec1)
qed

text \<open>
  Claim C3, in exact arithmetic. \<^verbatim>\<open>total_saved\<close> is
  \<^verbatim>\<open>monthly_saving * months_to_target\<close>, with the month count after the clamp, and it
  is the amount of the entry at index \<^verbatim>\<open>months_to_target\<close>, which is the last entry
  of \<^verbatim>\<open>projection\<close>. This is the function on \<^verbatim>\<open>int\<close> amounts, where one
  multiplication and the repeated \<^verbatim>\<open>+=\<close> of the loop agree.
\<close>

theorem total_saved_is_last_amount:
  "\<exists>r. calculate_savings_projection ta ms sd td = Inr r
      \<and> total_saved r = ms * of_int (months_to_target r)
      \<and> nat (months_to_target r) < length (projection r)
      \<and> total_saved r = amount (projection r ! nat (months_to_target r))
      \<and> total_saved r = amount (last (projection r))"
proof -
  let ?m = "months_between sd td"
  let ?p = "map (\<lambda>k. \<lparr>entry_month = int k, amount = ms * real k,
                       target_line = ta / of_int ?m * of_int (int k)\<rparr>) [0..<nat ?m + 1]"
  obtain r where r: "calculate_savings_projection ta ms sd td = Inr r"
    and mt: "months_to_target r = ?m" and p: "projection r = ?p"
    and ts: "total_saved r = ms * of_int ?m"
    by (simp add: calc_closed_form)
  have m: "0 < ?m" by (rule months_between_pos)
  have total: "total_saved r = ms * of_int (months_to_target r)"
    by (simp add: ts mt)
  have len: "nat (months_to_target r) < length (projection r)"
    by (simp add: mt p)
  have idx: "real (nat ?m) = of_int ?m"
    using m by simp
  have nth: "total_saved r = amount (projection r ! nat (months_to_target r))"
    by (simp add: ts mt p idx del: upt_Suc)
  have "last (projection r) = projection r ! nat (months_to_target r)"
    by (simp add: mt p last_conv_nth del: upt_Suc)
  with nth have lst: "total_saved r = amount (last (projection r))"
    by simp
  from r total len nth lst show ?thesis by blast
qed

text \<open>Six months of 8000: 48000 saved, the amount of entry 6, the last of seven.\<close>

theorem total_saved_is_last_amount_witness:
  "\<exists>r. calculate_savings_projection 150000 8000
      \<lparr>year = 2024, month = 1, day = 1\<rparr>
      \<lparr>year = 2024, month = 7, day = 1\<rparr> = Inr r
      \<and> months_to_target r = 6
      \<and> total_saved r = 48000
      \<and> length (projection r) = 7
      \<and> amount (projection r ! 6) = 48000
      \<and> amount (last (projection r)) = 48000"
proof -
  obtain r where r: "calculate_savings_projection 150000 8000
      \<lparr>year = 2024, month = 1, day = 1\<rparr>
      \<lparr>year = 2024, month = 7, day = 1\<rparr> = Inr r"
    and total: "total_saved r = 8000 * of_int (months_to_target r)"
    and nth: "total_saved r = amount (projection r ! nat (months_to_target r))"
    and lst: "total_saved r = amount (last (projection r))"
    using total_saved_is_last_amount [of 150000 8000
        "\<lparr>year = 2024, month = 1, day = 1\<rparr>"
        "\<lparr>year = 2024, month = 7, day = 1\<rparr>"]
    by blast
  have m: "months_to_target r = 6" and len: "length (projection r) = 7"
    using r by (auto simp add: eval_defs upto_rec1)
  from r m len total nth lst show ?thesis by simp
qed

text \<open>
  The rounding at the values used below: the float written \<^verbatim>\<open>0.1\<close>, and the sum
  \<^verbatim>\<open>0.1 + 0.2\<close>, which is the float \<^verbatim>\<open>0.30000000000000004\<close>; half way between two
  floats the even significand wins.
\<close>

lemma round_double_tenth: "round_double (1 / 10) = 3602879701896397 / 36028797018963968"
  by code_simp

lemma float_add_tenth_fifth:
  "float_add (round_double (1 / 10)) (round_double (2 / 10)) = 1351079888211149 / 4503599627370496"
  by code_simp

lemma round_double_ties_to_even:
  "round_double 9007199254740993 = 9007199254740992"
  "round_double 9007199254740995 = 9007199254740996"
  by code_simp+

text \<open>The run of the function on \<^verbatim>\<open>1.0\<close> and \<^verbatim>\<open>0.1\<close> over ten months.\<close>

lemma float_projection_tenth:
  "float_calculate_savings_projection 1 (round_double (1 / 10))
       \<lparr>year = 2024, month = 1, day = 1\<rparr> \<lparr>year = 2024, month = 11, day = 1\<rparr> =
     Inr \<lparr>float_months_to_target = 10, float_total_saved = 1, float_shortfall = 0,
          float_required_monthly = 3602879701896397 / 36028797018963968,
          float_projection =
            [\<lparr>float_entry_month = 0, float_amount = 0, float_target_line = 0\<rparr>,
             \<lparr>float_entry_month = 1, float_amount = 3602879701896397 / 36028797018963968,
              float_target_line = 3602879701896397 / 36028797018963968\<rparr>,
             \<lparr>float_entry_month = 2, float_amount = 3602879701896397 / 18014398509481984,
              float_target_line = 3602879701896397 / 18014398509481984\<rparr>,
             \<lparr>float_entry_month = 3, float_amount = 1351079888211149 / 4503599627370496,
              float_target_line = 1351079888211149 / 4503599627370496\<rparr>,
             \<lparr>float_entry_month = 4, float_amount = 3602879701896397 / 9007199254740992,
              float_target_line = 3602879701896397 / 9007199254740992\<rparr>,
             \<lparr>float_entry_month = 5, float_amount = 1 / 2, float_target_line = 1 / 2\<rparr>,
             \<lparr>float_entry_month = 6, float_amount = 5404319552844595 / 9007199254740992,
              float_target_line = 1351079888211149 / 2251799813685248\<rparr>,
             \<lparr>float_entry_month = 7, float_amount = 3152519739159347 / 4503599627370496,
              float_target_line = 6305039478318695 / 9007199254740992\<rparr>,
             \<lparr>float_entry_month = 8, float_amount = 7205759403792793 / 9007199254740992,
              float_target_line = 3602879701896397 / 4503599627370496\<rparr>,
             \<lparr>float_entry_month = 9, float_amount = 2026619832316723 / 2251799813685248,
              float_target_line = 8106479329266893 / 9007199254740992\<rparr>,
             \<lparr>float_entry_month = 10, float_amount = 9007199254740991 / 9007199254740992,
              float_target_line = 1\<rparr>],
          float_success_rate = 100\<rparr>"
  by code_simp

text \<open>
  The claim C3 as it is written fails on amounts of type \<^verbatim>\<open>float\<close>. With a target of
  \<^verbatim>\<open>1.0\<close> and \<^verbatim>\<open>0.1\<close> a month from 2024-01-01 to 2024-11-01, \<^verbatim>\<open>total_saved\<close> is
  \<^verbatim>\<open>0.1 * 10\<close>, which rounds to \<^verbatim>\<open>1.0\<close>, and the amount of the last entry, the
  tenth \<^verbatim>\<open>+=\<close> of \<^verbatim>\<open>0.1\<close>, is \<^verbatim>\<open>0.9999999999999999\<close>, one unit in the last
  place below 1.
\<close>

theorem float_total_saved_counterexample:
  "float_calculate_savings_projection 1 (round_double (1 / 10))
       \<lparr>year = 2024, month = 1, day = 1\<rparr> \<lparr>year = 2024, month = 11, day = 1\<rparr> =
     Inr \<lparr>float_months_to_target = 10, float_total_saved = 1, float_shortfall = 0,
          float_required_monthly = 3602879701896397 / 36028797018963968,
          float_projection =
            [\<lparr>float_entry_month = 0, float_amount = 0, float_target_line = 0\<rparr>,
             \<lparr>float_entry_month = 1, float_amount = 3602879701896397 / 36028797018963968,
              float_target_line = 3602879701896397 / 36028797018963968\<rparr>,
             \<lparr>float_entry_month = 2, float_amount = 3602879701896397 / 18014398509481984,
              float_target_line = 3602879701896397 / 18014398509481984\<rparr>,
             \<lparr>float_entry_month = 3, float_amount = 1351079888211149 / 4503599627370496,
              float_target_line = 1351079888211149 / 4503599627370496\<rparr>,
             \<lparr>float_entry_month = 4, float_amount = 3602879701896397 / 9007199254740992,
              float_target_line = 3602879701896397 / 9007199254740992\<rparr>,
             \<lparr>float_entry_month = 5, float_amount = 1 / 2, float_target_line = 1 / 2\<rparr>,
             \<lparr>float_entry_month = 6, float_amount = 5404319552844595 / 9007199254740992,
              float_target_line = 1351079888211149 / 2251799813685248\<rparr>,
             \<lparr>float_entry_month = 7, float_amount = 3152519739159347 / 4503599627370496,
              float_target_line = 6305039478318695 / 9007199254740992\<rparr>,
             \<lparr>float_entry_month = 8, float_amount = 7205759403792793 / 9007199254740992,
              float_target_line = 3602879701896397 / 4503599627370496\<rparr>,
             \<lparr>float_entry_month = 9, float_amount = 2026619832316723 / 2251799813685248,
              float_target_line = 8106479329266893 / 9007199254740992\<rparr>,
             \<lparr>float_entry_month = 10, float_amount = 9007199254740991 / 9007199254740992,
              float_target_line = 1\<rparr>],
          float_success_rate = 100\<rparr>
   \<and> float_total_saved
        (projr (float_calculate_savings_projection 1 (round_double (1 / 10))
           \<lparr>year = 2024, month = 1, day = 1\<rparr> \<lparr>year = 2024, month = 11, day = 1\<rparr>))
      \<noteq> float_amount
          (float_projection
             (projr (float_calculate_savings_projection 1 (round_double (1 / 10))
                \<lparr>year = 2024, month = 1, day = 1\<rparr> \<lparr>year = 2024, month = 11, day = 1\<rparr>)) ! 10)"
  by (simp add: float_projection_tenth)

subsection \<open>The derived metrics\<close>

text \<open>
  Claim C4. \<^verbatim>\<open>shortfall\<close> is \<^verbatim>\<open>max(0, target_amount - total_saved)\<close>; it is never
  negative, and it is 0 when \<^verbatim>\<open>total_saved\<close> exceeds \<^verbatim>\<open>target_amount\<close>.
\<close>

theorem shortfall_is_clamped_gap:
  "\<exists>r. calculate_savings_projection ta ms sd td = Inr r
      \<and> shortfall r = max 0 (ta - total_saved r)
      \<and> 0 \<le> shortfall r
      \<and> (ta < total_saved r \<longrightarrow> shortfall r = 0)"
  by (simp add: calc_closed_form)

text \<open>Ten months of 10000 against a target of 50000: a surplus, and a shortfall of 0.\<close>

theorem shortfall_is_clamped_gap_witness:
  "\<exists>r. calculate_savings_projection 50000 10000
      \<lparr>year = 2024, month = 1, day = 1\<rparr>
      \<lparr>year = 2024, month = 11, day = 1\<rparr> = Inr r
      \<and> total_saved r = 100000
      \<and> (50000 :: real) < total_saved r
      \<and> shortfall r = 0"
proof -
  obtain r where r: "calculate_savings_projection 50000 10000
      \<lparr>year = 2024, month = 1, day = 1\<rparr>
      \<lparr>year = 2024, month = 11, day = 1\<rparr> = Inr r"
    and surplus: "50000 < total_saved r \<longrightarrow> shortfall r = 0"
    using shortfall_is_clamped_gap [of 50000 10000
        "\<lparr>year = 2024, month = 1, day = 1\<rparr>"
        "\<lparr>year = 2024, month = 11, day = 1\<rparr>"]
    by blast
  have total: "total_saved r = 100000"
    using r by (auto simp add: eval_defs upto_rec1)
  with r surplus show ?thesis by simp
qed

text \<open>
  Claim C5. With \<^verbatim>\<open>target_amount\<close> and \<^verbatim>\<open>monthly_saving\<close> not negative,
  \<^verbatim>\<open>success_rate\<close> is \<^verbatim>\<open>min(100, total_saved / target_amount * 100)\<close> when
  \<^verbatim>\<open>target_amount\<close> is positive and 0 when it is 0, and it lies between 0 and 100.
\<close>

theorem success_rate_in_range:
  assumes "0 \<le> ta" and "0 \<le> ms"
  shows "\<exists>r. calculate_savings_projection ta ms sd td = Inr r
      \<and> (0 < ta \<longrightarrow> success_rate r = min 100 (total_saved r / ta * 100))
      \<and> (ta = 0 \<longrightarrow> success_rate r = 0)
      \<and> 0 \<le> success_rate r \<and> success_rate r \<le> 100"
proof -
  have "0 \<le> ms * of_int (months_between sd td)"
    using assms months_between_pos [of sd td] by simp
  then have "0 \<le> ms * of_int (months_between sd td) / ta * 100"
    using assms by simp
  then show ?thesis
    by (simp add: calc_closed_form)
qed

text \<open>
  Six months of 8000 against 150000 give 32 percent; twelve months of 20000 against
  the same target are capped at 100.
\<close>

theorem success_rate_in_range_witness:
  "(0 :: real) \<le> 150000 \<and> (0 :: real) \<le> 8000 \<and> (0 :: real) \<le> 20000
   \<and> (\<exists>r. calculate_savings_projection 150000 8000
       \<lparr>year = 2025, month = 3, day = 15\<rparr>
       \<lparr>year = 2025, month = 9, day = 10\<rparr> = Inr r
        \<and> total_saved r = 48000 \<and> success_rate r = 32)
   \<and> (\<exists>r. calculate_savings_projection 150000 20000
       \<lparr>year = 2025, month = 3, day = 15\<rparr>
       \<lparr>year = 2026, month = 3, day = 15\<rparr> = Inr r
        \<and> total_saved r = 240000 \<and> success_rate r = 100)"
proof -
  have ta: "(0 :: real) \<le> 150000" and ms1: "(0 :: real) \<le> 8000" and ms2: "(0 :: real) \<le> 20000"
    by simp_all
  obtain r1 where r1: "calculate_savings_projection 150000 8000
      \<lparr>year = 2025, month = 3, day = 15\<rparr>
      \<lparr>year = 2025, month = 9, day = 10\<rparr> = Inr r1"
    and rate1: "(0 :: real) < 150000 \<longrightarrow> success_rate r1 = min 100 (total_saved r1 / 150000 * 100)"
    using success_rate_in_range [OF ta ms1, of
        "\<lparr>year = 2025, month = 3, day = 15\<rparr>"
        "\<lparr>year = 2025, month = 9, day = 10\<rparr>"]
    by blast
  obtain r2 where r2: "calculate_savings_projection 150000 20000
      \<lparr>year = 2025, month = 3, day = 15\<rparr>
      \<lparr>year = 2026, month = 3, day = 15\<rparr> = Inr r2"
    and rate2: "(0 :: real) < 150000 \<longrightarrow> success_rate r2 = min 100 (total_saved r2 / 150000 * 100)"
    using success_rate_in_range [OF ta ms2, of
        "\<lparr>year = 2025, month = 3, day = 15\<rparr>"
        "\<lparr>year = 2026, month = 3, day = 15\<rparr>"]
    by blast
  have t1: "total_saved r1 = 48000"
    using r1 by (auto simp add: eval_defs upto_rec1)
  have t2: "total_saved r2 = 240000"
    using r2 by (auto simp add: eval_defs upto_rec1)
  from r1 rate1 t1 have "\<exists>r. calculate_savings_projection 150000 8000
      \<lparr>year = 2025, month = 3, day = 15\<rparr>
      \<lparr>year = 2025, month = 9, day = 10\<rparr> = Inr r
        \<and> total_saved r = 48000 \<and> success_rate r = 32"
    by simp
  moreover from r2 rate2 t2 have "\<exists>r. calculate_savings_projection 150000 20000
      \<lparr>year = 2025, month = 3, day = 15\<rparr>
      \<lparr>year = 2026, month = 3, day = 15\<rparr> = Inr r
        \<and> total_saved r = 240000 \<and> success_rate r = 100"
    by simp
  ultimately show ?thesis by simp
qed

text \<open>
  Claim C7. \<^verbatim>\<open>required_monthly\<close> is \<^verbatim>\<open>target_amount / months_to_target\<close>, so that
  \<^verbatim>\<open>required_monthly * months_to_target\<close> is \<^verbatim>\<open>target_amount\<close>; the
  \<^verbatim>\<open>'target_line'\<close> of entry \<open>i\<close> is \<^verbatim>\<open>(target_amount / months_to_target) * i\<close>,
  which at the last index is \<^verbatim>\<open>target_amount\<close>. All of it in exact arithmetic.
\<close>

theorem required_monthly_reaches_target:
  "\<exists>r. calculate_savings_projection ta ms sd td = Inr r
      \<and> required_monthly r = ta / of_int (months_to_target r)
      \<and> required_monthly r * of_int (months_to_target r) = ta
      \<and> (\<forall>i. i \<le> nat (months_to_target r) \<longrightarrow>
            target_line (projection r ! i) = ta / of_int (months_to_target r) * of_nat i)
      \<and> target_line (projection r ! nat (months_to_target r)) = ta"
proof -
  let ?m = "months_between sd td"
  let ?p = "map (\<lambda>k. \<lparr>entry_month = int k, amount = ms * real k,
                       target_line = ta / of_int ?m * of_int (int k)\<rparr>) [0..<nat ?m + 1]"
  obtain r where r: "calculate_savings_projection ta ms sd td = Inr r"
    and mt: "months_to_target r = ?m" and p: "projection r = ?p"
    and rm: "required_monthly r = ta / of_int ?m"
    by (simp add: calc_closed_form)
  have m: "0 < ?m" by (rule months_between_pos)
  have req: "required_monthly r = ta / of_int (months_to_target r)"
    by (simp add: rm mt)
  have whole: "required_monthly r * of_int (months_to_target r) = ta"
    using m by (simp add: rm mt)
  have tline: "target_line (projection r ! i) = ta / of_int (months_to_target r) * of_nat i"
    if "i \<le> nat (months_to_target r)" for i
    using that by (simp add: mt p del: upt_Suc)
  have final: "target_line (projection r ! nat (months_to_target r)) = ta"
    using m by (simp add: mt p del: upt_Suc)
  from r req whole tline final show ?thesis by blast
qed

text \<open>
  A target of 100 in three months: 100 / 3 a month, which times 3 is 100 again; the
  target line is 200 / 3 at index 2 and 100 at index 3.
\<close>

theorem required_monthly_reaches_target_witness:
  "\<exists>r. calculate_savings_projection 100 10
      \<lparr>year = 2024, month = 1, day = 1\<rparr>
      \<lparr>year = 2024, month = 4, day = 1\<rparr> = Inr r
      \<and> months_to_target r = 3
      \<and> required_monthly r = 100 / 3
      \<and> required_monthly r * 3 = 100
      \<and> target_line (projection r ! 2) = 200 / 3
      \<and> target_line (projection r ! 3) = 100"
proof -
  obtain r where r: "calculate_savings_projection 100 10
      \<lparr>year = 2024, month = 1, day = 1\<rparr>
      \<lparr>year = 2024, month = 4, day = 1\<rparr> = Inr r"
    and req: "required_monthly r = 100 / of_int (months_to_target r)"
    and whole: "required_monthly r * of_int (months_to_target r) = 100"
    and tline: "\<And>i. i \<le> nat (months_to_target r) \<Longrightarrow>
            target_line (projection r ! i) = 100 / of_int (months_to_target r) * of_nat i"
    and final: "target_line (projection r ! nat (months_to_target r)) = 100"
    using required_monthly_reaches_target [of 100 10
        "\<lparr>year = 2024, month = 1, day = 1\<rparr>"
        "\<lparr>year = 2024, month = 4, day = 1\<rparr>"]
    by blast
  have m: "months_to_target r = 3"
    using r by (auto simp add: eval_defs upto_rec1)
  from r m req whole tline [of 2] final show ?thesis
    by simp
qed

text \<open>
  Claim C10. With \<^verbatim>\<open>target_amount\<close> positive and \<^verbatim>\<open>monthly_saving\<close> not negative,
  \<^verbatim>\<open>shortfall\<close> is 0 exactly when \<^verbatim>\<open>success_rate\<close> is 100 (in exact arithmetic).
\<close>

theorem shortfall_zero_iff_full_success:
  assumes "0 < ta" and "0 \<le> ms"
  shows "\<exists>r. calculate_savings_projection ta ms sd td = Inr r
      \<and> (shortfall r = 0 \<longleftrightarrow> success_rate r = 100)"
proof -
  let ?s = "ms * of_int (months_between sd td)"
  have "(max 0 (ta - ?s) = 0) = (ta \<le> ?s)" by auto
  moreover have "(min 100 (?s / ta * 100) = 100) = (ta \<le> ?s)"
    using assms by (auto simp add: min_def field_simps)
  ultimately show ?thesis using assms by (simp add: calc_closed_form)
qed

text \<open>
  Ten months of 10000 meet a target of 100000: no shortfall, and a rate of 100. Six
  months of 8000 against 150000 leave a shortfall of 102000, and a rate below 100.
\<close>

theorem shortfall_zero_iff_full_success_witness:
  "(0 :: real) < 100000 \<and> (0 :: real) \<le> 10000
   \<and> (\<exists>r. calculate_savings_projection 100000 10000
       \<lparr>year = 2024, month = 1, day = 1\<rparr>
       \<lparr>year = 2024, month = 11, day = 1\<rparr> = Inr r
        \<and> shortfall r = 0 \<and> success_rate r = 100)
   \<and> (0 :: real) < 150000 \<and> (0 :: real) \<le> 8000
   \<and> (\<exists>r. calculate_savings_projection 150000 8000
       \<lparr>year = 2024, month = 2, day = 1\<rparr>
       \<lparr>year = 2024, month = 8, day = 1\<rparr> = Inr r
        \<and> shortfall r = 102000 \<and> success_rate r \<noteq> 100)"
proof -
  have ta1: "(0 :: real) < 100000" and ms1: "(0 :: real) \<le> 10000"
    and ta2: "(0 :: real) < 150000" and ms2: "(0 :: real) \<le> 8000"
    by simp_all
  obtain r1 where r1: "calculate_savings_projection 100000 10000
      \<lparr>year = 2024, month = 1, day = 1\<rparr>
      \<lparr>year = 2024, month = 11, day = 1\<rparr> = Inr r1"
    and iff1: "shortfall r1 = 0 \<longleftrightarrow> success_rate r1 = 100"
    using shortfall_zero_iff_full_success [OF ta1 ms1, of
        "\<lparr>year = 2024, month = 1, day = 1\<rparr>"
        "\<lparr>year = 2024, month = 11, day = 1\<rparr>"]
    by blast
  obtain r2 where r2: "calculate_savings_projection 150000 8000
      \<lparr>year = 2024, month = 2, day = 1\<rparr>
      \<lparr>year = 2024, month = 8, day = 1\<rparr> = Inr r2"
    and iff2: "shortfall r2 = 0 \<longleftrightarrow> success_rate r2 = 100"
    using shortfall_zero_iff_full_success [OF ta2 ms2, of
        "\<lparr>year = 2024, month = 2, day = 1\<rparr>"
        "\<lparr>year = 2024, month = 8, day = 1\<rparr>"]
    by blast
  have s1: "shortfall r1 = 0"
    using r1 by (auto simp add: eval_defs upto_rec1)
  have s2: "shortfall r2 = 102000"
    using r2 by (auto simp add: eval_defs upto_rec1)
  from r1 iff1 s1 have "\<exists>r. calculate_savings_projection 100000 10000
      \<lparr>year = 2024, month = 1, day = 1\<rparr>
      \<lparr>year = 2024, month = 11, day = 1\<rparr> = Inr r
        \<and> shortfall r = 0 \<and> success_rate r = 100"
    by simp
  moreover from r2 iff2 s2 have "\<exists>r. calculate_savings_projection 150000 8000
      \<lparr>year = 2024, month = 2, day = 1\<rparr>
      \<lparr>year = 2024, month = 8, day = 1\<rparr> = Inr r
        \<and> shortfall r = 102000 \<and> success_rate r \<noteq> 100"
    by simp
  ultimately show ?thesis by simp
qed

subsection \<open>Degenerate arguments\<close>

text \<open>
  Claim C6. When \<^verbatim>\<open>target_date <= start_date\<close>, as \<^verbatim>\<open>datetime.date\<close> compares
  dates (year, month and day), the function returns the projection of one period:
  \<^verbatim>\<open>months_to_target\<close> is 1, \<^verbatim>\<open>total_saved\<close> is one contribution,
  \<^verbatim>\<open>required_monthly\<close> is the whole target, and \<^verbatim>\<open>projection\<close> has the entries of
  the months 0 and 1. The two dates are values of \<^verbatim>\<open>datetime.date\<close>, whose months
  are from 1 to 12.
\<close>

theorem target_not_after_start_one_period:
  assumes "valid_date sd" and "valid_date td" and "date_le td sd"
  shows "calculate_savings_projection ta ms sd td =
     Inr \<lparr>months_to_target = 1, total_saved = ms, shortfall = max 0 (ta - ms),
          required_monthly = ta,
          projection = [\<lparr>entry_month = 0, amount = 0, target_line = 0\<rparr>,
                        \<lparr>entry_month = 1, amount = ms, target_line = ta\<rparr>],
          success_rate = (if 0 < ta then min 100 (ms / ta * 100) else 0)\<rparr>"
  by (simp add: calc_closed_form months_between_not_after [OF assms])

text \<open>
  A target of 2023-12-01 for a start of 2024-01-31: an earlier year and a later month.
  The difference is -1, and the result is the projection of one period.
\<close>

theorem target_not_after_start_one_period_witness:
  "valid_date \<lparr>year = 2024, month = 1, day = 31\<rparr>
   \<and> valid_date \<lparr>year = 2023, month = 12, day = 1\<rparr>
   \<and> date_le \<lparr>year = 2023, month = 12, day = 1\<rparr>
         \<lparr>year = 2024, month = 1, day = 31\<rparr>
   \<and> calculate_savings_projection 50000 5000
       \<lparr>year = 2024, month = 1, day = 31\<rparr>
       \<lparr>year = 2023, month = 12, day = 1\<rparr> =
       Inr \<lparr>months_to_target = 1, total_saved = 5000, shortfall = 45000,
            required_monthly = 50000,
            projection = [\<lparr>entry_month = 0, amount = 0, target_line = 0\<rparr>,
                          \<lparr>entry_month = 1, amount = 5000, target_line = 50000\<rparr>],
            success_rate = 10\<rparr>"
proof -
  have sd: "valid_date \<lparr>year = 2024, month = 1, day = 31\<rparr>"
    and td: "valid_date \<lparr>year = 2023, month = 12, day = 1\<rparr>"
    by (simp_all add: valid_date_def days_in_month_def is_leap_def)
  have le: "date_le \<lparr>year = 2023, month = 12, day = 1\<rparr>
      \<lparr>year = 2024, month = 1, day = 31\<rparr>"
    by (simp add: date_le_def)
  from sd td le target_not_after_start_one_period [OF sd td le, of 50000 5000]
  show ?thesis by simp
qed

text \<open>
  Claim C8. With \<^verbatim>\<open>target_amount\<close> 0, and \<^verbatim>\<open>monthly_saving\<close> not negative as a
  contribution is, the function returns with \<^verbatim>\<open>success_rate\<close>, \<^verbatim>\<open>shortfall\<close> and
  \<^verbatim>\<open>required_monthly\<close> all 0. No division raises: the division by
  \<^verbatim>\<open>months_to_target\<close> of \<^verbatim>\<open>required_monthly\<close> and of every \<^verbatim>\<open>'target_line'\<close> is
  behind the test \<^verbatim>\<open>months_to_target > 0\<close> and returns, and the division by
  \<^verbatim>\<open>target_amount\<close> is behind the test \<^verbatim>\<open>target_amount > 0\<close> and is not evaluated.
\<close>

theorem zero_target_result:
  assumes "0 \<le> ms"
  shows "\<exists>r. calculate_savings_projection 0 ms sd td = Inr r
      \<and> success_rate r = 0 \<and> shortfall r = 0 \<and> required_monthly r = 0
      \<and> required_monthly_value 0 (months_to_target r) = Inr 0
      \<and> (\<forall>mo. target_line_value 0 (months_to_target r) mo = Inr 0)
      \<and> success_rate_value (total_saved r) 0 = Inr 0"
proof -
  have m: "0 < months_between sd td" by (rule months_between_pos)
  with assms have "0 \<le> ms * of_int (months_between sd td)" by simp
  with m show ?thesis
    by (simp add: calc_closed_form required_monthly_value_def target_line_value_def
        success_rate_value_def py_div_def)
qed

text \<open>A target of 0 with 1000 a month for a year: all three values are 0.\<close>

theorem zero_target_result_witness:
  "(0 :: real) \<le> 1000
   \<and> (\<exists>r. calculate_savings_projection 0 1000
              \<lparr>year = 2024, month = 1, day = 1\<rparr> \<lparr>year = 2025, month = 1, day = 1\<rparr> = Inr r
        \<and> months_to_target r = 12 \<and> total_saved r = 12000
        \<and> success_rate r = 0 \<and> shortfall r = 0 \<and> required_monthly r = 0)"
proof -
  have ms: "(0 :: real) \<le> 1000" by simp
  obtain r where r: "calculate_savings_projection 0 1000
      \<lparr>year = 2024, month = 1, day = 1\<rparr> \<lparr>year = 2025, month = 1, day = 1\<rparr> = Inr r"
    and zero: "success_rate r = 0" "shortfall r = 0" "required_monthly r = 0"
    using zero_target_result [OF ms, of "\<lparr>year = 2024, month = 1, day = 1\<rparr>"
        "\<lparr>year = 2025, month = 1, day = 1\<rparr>"]
    by blast
  have "months_to_target r = 12" and "total_saved r = 12000"
    using r by (auto simp add: eval_defs upto_rec1)
  with r zero show ?thesis by simp
qed

text \<open>
  Claim C9. With \<^verbatim>\<open>target_amount\<close> zero or negative the function returns, and
  \<^verbatim>\<open>success_rate\<close> is 0: the test \<^verbatim>\<open>target_amount > 0\<close> sends a negative target the
  way of a zero target, and the division is not evaluated.
\<close>

theorem nonpositive_target_success_rate_zero:
  assumes "ta \<le> 0"
  shows "(\<exists>r. calculate_savings_projection ta ms sd td = Inr r \<and> success_rate r = 0)
     \<and> success_rate_value saved ta = Inr 0
     \<and> success_rate_value saved ta = success_rate_value saved 0"
  using assms by (simp add: calc_closed_form success_rate_value_def)

text \<open>A target of -500 with 1000 a month for three months: a rate of 0, no exception.\<close>

theorem nonpositive_target_success_rate_zero_witness:
  "(- 500 :: real) \<le> 0
   \<and> (\<exists>r. calculate_savings_projection (- 500) 1000
       \<lparr>year = 2024, month = 1, day = 1\<rparr>
       \<lparr>year = 2024, month = 4, day = 1\<rparr> = Inr r
        \<and> total_saved r = 3000 \<and> success_rate r = 0)
   \<and> success_rate_value 3000 (- 500) = Inr 0"
proof -
  have ta: "(- 500 :: real) \<le> 0" by simp
  obtain r where r: "calculate_savings_projection (- 500) 1000
      \<lparr>year = 2024, month = 1, day = 1\<rparr>
      \<lparr>year = 2024, month = 4, day = 1\<rparr> = Inr r"
    and rate: "success_rate r = 0"
    and branch: "success_rate_value 3000 (- 500) = Inr 0"
    using nonpositive_target_success_rate_zero [OF ta, of 1000
        "\<lparr>year = 2024, month = 1, day = 1\<rparr>"
        "\<lparr>year = 2024, month = 4, day = 1\<rparr>" 3000]
    by blast
  have total: "total_saved r = 3000"
    using r by (auto simp add: eval_defs upto_rec1)
  from r rate total branch show ?thesis by simp
qed

end
